theory Spec2Isabelle
  imports Main
begin

section \<open>Python values and exceptions\<close>

text \<open>
  The program handles values decoded from JSON without checking their types: a dataclass
  constructor stores whatever it is given, and \<^verbatim>\<open>args['query']\<close> is passed on as it is.
  The model therefore carries Python values as the type \<open>json\<close>; Python's \<^verbatim>\<open>None\<close> is
  \<open>JNull\<close>, a \<^verbatim>\<open>dict\<close> is the list of its items in insertion order.
\<close>

datatype pyfloat = Finite int int | PosInfinity | NegInfinity | NaN
  \<comment> \<open>\<open>Finite m e\<close> stands for \<open>m * 2 ^ e\<close>; only its being zero is ever inspected.\<close>

datatype json =
    JNull
  | JBool bool
  | JInt int
  | JFloat pyfloat
  | JStr string
  | JArr "json list"
  | JObj "(string \<times> json) list"

text \<open>
  Exceptions, by the classes the two \<^verbatim>\<open>except\<close> clauses of the program tell apart.
  \<open>RequestsJSONDecodeError\<close> is \<^verbatim>\<open>requests.exceptions.JSONDecodeError\<close>, which
  \<^verbatim>\<open>Response.json()\<close> raises since requests 2.27: it derives from \<^verbatim>\<open>InvalidJSONError\<close>,
  a \<^verbatim>\<open>RequestException\<close>, and from \<^verbatim>\<open>json.JSONDecodeError\<close>, a \<^verbatim>\<open>ValueError\<close>.
  \<open>JSONDecodeError\<close> is the standard library's \<^verbatim>\<open>json.JSONDecodeError\<close>, a
  \<^verbatim>\<open>ValueError\<close> only: \<^verbatim>\<open>json.loads\<close> raises it, and so does \<^verbatim>\<open>Response.json()\<close> of
  requests before 2.27. The string is \<^verbatim>\<open>str(e)\<close>.
\<close>

datatype pyexn =
    RequestException string
      \<comment> \<open>\<^verbatim>\<open>ConnectionError\<close>, \<^verbatim>\<open>Timeout\<close>, \<^verbatim>\<open>HTTPError\<close>, ...: any \<^verbatim>\<open>RequestException\<close> that is no \<^verbatim>\<open>ValueError\<close>\<close>
  | RequestsJSONDecodeError string
  | JSONDecodeError string
  | TypeError
  | AttributeError
  | UnboundLocalError
  | OtherError string
      \<comment> \<open>any exception that is neither a \<^verbatim>\<open>RequestException\<close> nor a \<^verbatim>\<open>ValueError\<close>\<close>

fun is_RequestException :: "pyexn \<Rightarrow> bool" where
  "is_RequestException (RequestException _) = True"
| "is_RequestException (RequestsJSONDecodeError _) = True"
| "is_RequestException _ = False"

fun is_ValueError :: "pyexn \<Rightarrow> bool" where
  "is_ValueError (RequestsJSONDecodeError _) = True"
| "is_ValueError (JSONDecodeError _) = True"
| "is_ValueError _ = False"

fun str_exn :: "pyexn \<Rightarrow> string" where
  "str_exn (RequestException m) = m"
| "str_exn (RequestsJSONDecodeError m) = m"
| "str_exn (JSONDecodeError m) = m"
| "str_exn (OtherError m) = m"
| "str_exn _ = []"

text \<open>Truth value of a Python value, as \<^verbatim>\<open>if not query\<close> tests it.\<close>

fun truthy :: "json \<Rightarrow> bool" where
  "truthy JNull = False"
| "truthy (JBool b) = b"
| "truthy (JInt i) = (i \<noteq> 0)"
| "truthy (JFloat f) = (case f of Finite m e \<Rightarrow> m \<noteq> 0 | _ \<Rightarrow> True)"
| "truthy (JStr s) = (s \<noteq> [])"
| "truthy (JArr xs) = (xs \<noteq> [])"
| "truthy (JObj kvs) = (kvs \<noteq> [])"

text \<open>\<^verbatim>\<open>str(n)\<close> of an integer, as the f-string \<^verbatim>\<open>f"Error: {response.status_code}"\<close> formats it.\<close>

definition digit_char :: "nat \<Rightarrow> char" where
  "digit_char d = ''0123456789'' ! d"

function str_nat :: "nat \<Rightarrow> string" where
  "str_nat n = (if n < 10 then [digit_char n] else str_nat (n div 10) @ [digit_char (n mod 10)])"
  by pat_completeness auto
termination
  by (relation "measure (\<lambda>n. n)") auto

declare str_nat.simps [simp del]

definition str_int :: "int \<Rightarrow> string" where
  "str_int i = (if i < 0 then CHR ''-'' # str_nat (nat (- i)) else str_nat (nat i))"

text \<open>\<^verbatim>\<open>d.get(key, default)\<close>: only a dict has the method.\<close>

fun py_get :: "json \<Rightarrow> string \<Rightarrow> json \<Rightarrow> pyexn + json" where
  "py_get (JObj kvs) key dflt = Inr (case map_of kvs key of Some v \<Rightarrow> v | None \<Rightarrow> dflt)"
| "py_get _ key dflt = Inl AttributeError"

text \<open>\<^verbatim>\<open>for item in x\<close>: a list gives its elements, a dict its keys, a string its characters.\<close>

fun py_iter :: "json \<Rightarrow> pyexn + json list" where
  "py_iter (JArr xs) = Inr xs"
| "py_iter (JObj kvs) = Inr (map (\<lambda>kv. JStr (fst kv)) kvs)"
| "py_iter (JStr s) = Inr (map (\<lambda>c. JStr [c]) s)"
| "py_iter _ = Inl TypeError"

fun contains_str :: "string \<Rightarrow> string \<Rightarrow> bool" where
  "contains_str sub [] = (sub = [])"
| "contains_str sub (c # cs) = (take (length sub) (c # cs) = sub \<or> contains_str sub cs)"

text \<open>\<^verbatim>\<open>key in x\<close> for a string \<open>key\<close>.\<close>

fun py_in :: "string \<Rightarrow> json \<Rightarrow> pyexn + bool" where
  "py_in key (JObj kvs) = Inr (key \<in> set (map fst kvs))"
| "py_in key (JArr xs) = Inr (JStr key \<in> set xs)"
| "py_in key (JStr s) = Inr (contains_str key s)"
| "py_in key _ = Inl TypeError"

text \<open>\<^verbatim>\<open>x[key]\<close> for a string \<open>key\<close>, reached only after \<^verbatim>\<open>key in x\<close> was true.\<close>

fun py_getitem :: "json \<Rightarrow> string \<Rightarrow> pyexn + json" where
  "py_getitem (JObj kvs) key = (case map_of kvs key of Some v \<Rightarrow> Inr v | None \<Rightarrow> Inl (OtherError ''KeyError''))"
| "py_getitem _ key = Inl TypeError"

section \<open>The outside world\<close>

text \<open>
  The HTTP client, the model endpoint, the process environment and the \<^verbatim>\<open>json\<close> module are
  not part of the program: they are parameters. A response object is what its attribute and
  its two methods give. The \<open>k\<close>-th HTTP request of a run and the \<open>k\<close>-th model call may be
  answered differently each time, so both oracles take the number of earlier calls.
\<close>

datatype http_request =
    GET string "(string \<times> string) list" "(string \<times> json) list"
  | POST string "(string \<times> string) list" json

record response =
  status_code :: int
  raise_for_status :: "pyexn option"
  resp_json :: "pyexn + json"

record function_call =
  call_id :: string
  function_name :: string
  function_arguments :: string

record assistant_message =
  content :: "string option"
  tool_calls :: "function_call list option"

datatype message =
    System string
  | User string
  | Assistant assistant_message
  | Tool string string

record env =
  environ :: "string \<rightharpoonup> string"
  http :: "nat \<Rightarrow> http_request \<Rightarrow> pyexn + response"
  llm :: "nat \<Rightarrow> message list \<Rightarrow> pyexn + assistant_message"
  json_loads :: "string \<Rightarrow> pyexn + json"
  json_dumps :: "json \<Rightarrow> string"

text \<open>What a run does to the world: the requests sent, the sleeps, the printed lines.\<close>

record world =
  http_log :: "http_request list"
  sleeps :: "int list"
  stdout :: "string list"
  llm_calls :: nat

definition print :: "string \<Rightarrow> world \<Rightarrow> world" where
  "print line w = w\<lparr>stdout := stdout w @ [line]\<rparr>"

definition send :: "env \<Rightarrow> http_request \<Rightarrow> world \<Rightarrow> (pyexn + response) \<times> world" where
  "send env req w = (http env (length (http_log w)) req, w\<lparr>http_log := http_log w @ [req]\<rparr>)"

section \<open>URL content grabber\<close>

record URLContent =
  uc_title :: json
  uc_text :: json
  uc_error :: json

text \<open>
  \<^verbatim>\<open>URLContent(**content)\<close>: the generated constructor takes \<open>title\<close> and \<open>text\<close>,
  and \<open>error\<close> with default \<^verbatim>\<open>None\<close>; any other keyword, a missing one, or a \<open>content\<close>
  that is no dict is a \<^verbatim>\<open>TypeError\<close>. The values are stored unchecked.
\<close>

fun URLContent_init :: "json \<Rightarrow> pyexn + URLContent" where
  "URLContent_init (JObj kvs) =
     (if \<exists>k \<in> set (map fst kvs). k \<notin> {''title'', ''text'', ''error''} then Inl TypeError
      else case (map_of kvs ''title'', map_of kvs ''text'') of
             (Some t, Some x) \<Rightarrow>
               Inr \<lparr>uc_title = t, uc_text = x,
                    uc_error = (case map_of kvs ''error'' of Some e \<Rightarrow> e | None \<Rightarrow> JNull)\<rparr>
           | _ \<Rightarrow> Inl TypeError)"
| "URLContent_init _ = Inl TypeError"

definition convert_request :: "string \<Rightarrow> http_request" where
  "convert_request url =
     POST ''https://fun-readable-cd6ed9e43b50.herokuapp.com/convert''
       [(''accept'', ''application/json''), (''Content-Type'', ''application/json'')]
       (JObj [(''url'', JStr url), (''is_blog'', JBool True)])"

definition get_url_content :: "env \<Rightarrow> string \<Rightarrow> world \<Rightarrow> (pyexn + URLContent) \<times> world" where
  "get_url_content env url w =
     (case send env (convert_request url) w of
        (Inl e, w1) \<Rightarrow> (Inl e, w1)
      | (Inr response, w1) \<Rightarrow>
          if status_code response \<noteq> 200
          then (Inr \<lparr>uc_title = JStr '''', uc_text = JStr '''',
                     uc_error = JStr (''Error: '' @ str_int (status_code response))\<rparr>, w1)
          else (case (case resp_json response of Inl e \<Rightarrow> Inl e | Inr body \<Rightarrow> URLContent_init body) of
                  Inr r \<Rightarrow> (Inr r, w1)
                | Inl e \<Rightarrow>
                    if is_ValueError e
                    then (Inr \<lparr>uc_title = JStr '''', uc_text = JStr '''',
                               uc_error = JStr (''Error parsing response: '' @ str_exn e)\<rparr>, w1)
                    else (Inl e, w1)))"

section \<open>Brave Search tool\<close>

record SearchResult =
  sr_title :: json
  sr_url :: json
  sr_description :: json
  sr_extra_snippets :: json

definition max_retries :: nat where
  "max_retries = 3"

definition backoff_factor :: int where
  "backoff_factor = 2"

text \<open>The body of the \<^verbatim>\<open>try\<close>: the request, \<^verbatim>\<open>raise_for_status()\<close>, \<^verbatim>\<open>response.json()\<close>.\<close>

definition brave_attempt :: "env \<Rightarrow> http_request \<Rightarrow> world \<Rightarrow> (pyexn + json) \<times> world" where
  "brave_attempt env req w =
     (case send env req w of
        (Inl e, w1) \<Rightarrow> (Inl e, w1)
      | (Inr response, w1) \<Rightarrow>
          (case raise_for_status response of
             Some e \<Rightarrow> (Inl e, w1)
           | None \<Rightarrow> (resp_json response, w1)))"

text \<open>
  The \<^verbatim>\<open>while retries < max_retries\<close> loop. \<open>Inr (Some j)\<close> is the \<^verbatim>\<open>break\<close> with
  \<open>results_json = j\<close>, \<open>Inr None\<close> the \<^verbatim>\<open>return []\<close> inside the handler. Leaving the loop
  by its condition would leave \<open>results_json\<close> unbound.
\<close>

function brave_retry_loop :: "env \<Rightarrow> http_request \<Rightarrow> nat \<Rightarrow> world \<Rightarrow> (pyexn + json option) \<times> world" where
  "brave_retry_loop env req retries w =
     (if retries < max_retries then
        (case brave_attempt env req w of
           (Inr results_json, w1) \<Rightarrow> (Inr (Some results_json), print ''Got results'' w1)
         | (Inl e, w1) \<Rightarrow>
             if is_RequestException e then
               (if retries + 1 < max_retries
                then brave_retry_loop env req (retries + 1)
                       ((print (''HTTP Request failed: '' @ str_exn e @ '', retrying...'') w1)
                          \<lparr>sleeps := sleeps w1 @ [backoff_factor ^ (retries + 1)]\<rparr>)
                else (Inr None, print (''HTTP Request failed: '' @ str_exn e @ '', retrying...'') w1))
             else (Inl e, w1))
      else (Inl UnboundLocalError, w))"
  by pat_completeness auto
termination
  by (relation "measure (\<lambda>(env, req, retries, w). max_retries - retries)") auto

declare brave_retry_loop.simps [simp del]

text \<open>The loop over \<^verbatim>\<open>results_json.get('web', {}).get('results', [])\<close>.\<close>

fun make_result :: "json \<Rightarrow> pyexn + SearchResult" where
  "make_result (JObj kvs) =
     Inr \<lparr>sr_title = (case map_of kvs ''title'' of Some v \<Rightarrow> v | None \<Rightarrow> JStr ''''),
          sr_url = (case map_of kvs ''url'' of Some v \<Rightarrow> v | None \<Rightarrow> JStr ''''),
          sr_description = (case map_of kvs ''description'' of Some v \<Rightarrow> v | None \<Rightarrow> JStr ''''),
          sr_extra_snippets = (case map_of kvs ''extra_snippets'' of Some v \<Rightarrow> v | None \<Rightarrow> JArr [])\<rparr>"
| "make_result _ = Inl AttributeError"

fun collect_results :: "json list \<Rightarrow> SearchResult list \<Rightarrow> pyexn + SearchResult list" where
  "collect_results [] results = Inr results"
| "collect_results (item # items) results =
     (case make_result item of
        Inl e \<Rightarrow> Inl e
      | Inr result \<Rightarrow> collect_results items (results @ [result]))"

definition parse_results :: "json \<Rightarrow> pyexn + SearchResult list" where
  "parse_results results_json =
     (case py_get results_json ''web'' (JObj []) of
        Inl e \<Rightarrow> Inl e
      | Inr web \<Rightarrow>
          (case py_get web ''results'' (JArr []) of
             Inl e \<Rightarrow> Inl e
           | Inr rs \<Rightarrow>
               (case py_iter rs of
                  Inl e \<Rightarrow> Inl e
                | Inr items \<Rightarrow> collect_results items [])))"

definition api_key :: "env \<Rightarrow> string" where
  "api_key env = (case environ env ''BRAVE_SEARCH_AI_API_KEY'' of Some v \<Rightarrow> v | None \<Rightarrow> '''')"
  \<comment> \<open>\<^verbatim>\<open>os.environ.get('BRAVE_SEARCH_AI_API_KEY', '')\<close>\<close>

definition brave_request :: "env \<Rightarrow> json \<Rightarrow> int \<Rightarrow> http_request" where
  "brave_request env query count =
     GET ''https://api.search.brave.com/res/v1/web/search''
       [(''Accept'', ''application/json''), (''X-Subscription-Token'', api_key env)]
       [(''q'', query), (''count'', JInt count)]"

definition search_brave :: "env \<Rightarrow> json \<Rightarrow> int \<Rightarrow> world \<Rightarrow> (pyexn + SearchResult list) \<times> world" where
  "search_brave env query count w =
     (if \<not> truthy query then (Inr [], w)
      else if api_key env = [] then (Inr [], print ''Error: Missing Brave Search API key.'' w)
      else (case brave_retry_loop env (brave_request env query count) 0 w of
              (Inl e, w1) \<Rightarrow> (Inl e, w1)
            | (Inr None, w1) \<Rightarrow> (Inr [], w1)
            | (Inr (Some results_json), w1) \<Rightarrow> (parse_results results_json, w1)))"

section \<open>Main system\<close>

definition first_llm_system_prompt :: string where
  "first_llm_system_prompt =
     ''You are a language model. Your task is to answer the complex queries of the user. '' @
     ''You can use brave search to search internet and get not just links and title and small '' @
     ''description, but also a deep dive into the original content of certain pages.'' @
     [CHR 0x0A, CHR 0x0A] @
     ''You can perform multiple search requests with breakdown'' @ [CHR 0x27] @ ''d queries, '' @
     ''and do multi-turn requests before answering the user'' @ [CHR 0x27] @ ''s queries.''"

text \<open>
  \<^verbatim>\<open>ask_llm(history, brave_search_tools)\<close>: one call of the model endpoint on the whole
  conversation. The tool list is the constant \<open>brave_search_tools\<close> at the only call site.
\<close>

definition ask_llm :: "env \<Rightarrow> world \<Rightarrow> message list \<Rightarrow> (pyexn + assistant_message) \<times> world" where
  "ask_llm env w history = (llm env (llm_calls w) history, w\<lparr>llm_calls := Suc (llm_calls w)\<rparr>)"

definition asdict :: "SearchResult \<Rightarrow> json" where
  "asdict x = JObj [(''title'', sr_title x), (''url'', sr_url x),
                    (''description'', sr_description x), (''extra_snippets'', sr_extra_snippets x)]"

text \<open>
  The body of \<^verbatim>\<open>for function_call in assistant_message.tool_calls\<close>. \<open>json_dumps env\<close>
  is \<^verbatim>\<open>json.dumps(\<cdot>, indent=2)\<close>.
\<close>

definition exec_tool_call ::
  "env \<Rightarrow> function_call \<Rightarrow> world \<Rightarrow> message list \<Rightarrow> (pyexn + unit) \<times> world \<times> message list" where
  "exec_tool_call env fc w history =
     (case json_loads env (function_arguments fc) of
        Inl e \<Rightarrow> (Inl e, w, history)
      | Inr args \<Rightarrow>
          if function_name fc = ''search_brave'' then
            (case py_in ''query'' args of
               Inl e \<Rightarrow> (Inl e, w, history)
             | Inr True \<Rightarrow>
                 (case py_getitem args ''query'' of
                    Inl e \<Rightarrow> (Inl e, w, history)
                  | Inr query \<Rightarrow>
                      (case search_brave env query 10 w of
                         (Inl e, w1) \<Rightarrow> (Inl e, w1, history)
                       | (Inr search_result, w1) \<Rightarrow>
                           (Inr (), w1,
                            history @ [Tool (call_id fc) (json_dumps env (JArr (map asdict search_result)))])))
             | Inr False \<Rightarrow>
                 (Inr (), w, history @ [Tool (call_id fc) ''No query found in arguments'']))
          else (Inr (), w, history @ [Tool (call_id fc) '''']))"

fun run_tool_calls ::
  "env \<Rightarrow> function_call list \<Rightarrow> world \<Rightarrow> message list \<Rightarrow> (pyexn + unit) \<times> world \<times> message list" where
  "run_tool_calls env [] w history = (Inr (), w, history)"
| "run_tool_calls env (fc # fcs) w history =
     (case exec_tool_call env fc w history of
        (Inl e, w1, history1) \<Rightarrow> (Inl e, w1, history1)
      | (Inr u, w1, history1) \<Rightarrow> run_tool_calls env fcs w1 history1)"

text \<open>\<^verbatim>\<open>if assistant_message.tool_calls\<close>: \<^verbatim>\<open>None\<close> and the empty list are both false.\<close>

definition requested_calls :: "assistant_message \<Rightarrow> function_call list" where
  "requested_calls am = (case tool_calls am of None \<Rightarrow> [] | Some fcs \<Rightarrow> fcs)"

definition echo_content :: "assistant_message \<Rightarrow> world \<Rightarrow> world" where
  "echo_content am w = (case content am of None \<Rightarrow> w | Some c \<Rightarrow> if c = [] then w else print c w)"

text \<open>
  The \<^verbatim>\<open>while True\<close> loop. It has no exit but the \<^verbatim>\<open>return\<close> and an exception, so it is
  a partial function: \<open>None\<close> is a run that goes on forever, \<open>Some (Inl e, _)\<close> one that an
  uncaught exception ends, \<open>Some (Inr c, _)\<close> one that returns \<open>c\<close>.
\<close>

partial_function (option) process_loop ::
  "env \<Rightarrow> world \<Rightarrow> message list \<Rightarrow> ((pyexn + string option) \<times> world \<times> message list) option" where
  "process_loop env w history =
     (case ask_llm env w history of
        (Inl e, w1) \<Rightarrow> Some (Inl e, w1, history)
      | (Inr am, w1) \<Rightarrow>
          if requested_calls am \<noteq> [] then
            (case run_tool_calls env (requested_calls am) (echo_content am w1) (history @ [Assistant am]) of
               (Inl e, w2, history2) \<Rightarrow> Some (Inl e, w2, history2)
             | (Inr u, w2, history2) \<Rightarrow> process_loop env w2 history2)
          else Some (Inr (content am), w1, history @ [Assistant am]))"

definition process_user_query ::
  "env \<Rightarrow> string \<Rightarrow> world \<Rightarrow> ((pyexn + string option) \<times> world \<times> message list) option" where
  "process_user_query env query w =
     process_loop env w [System first_llm_system_prompt, User query]"

section \<open>Notions the properties are stated with\<close>

text \<open>
  What the \<open>k\<close>-th HTTP request of a run yields inside the \<^verbatim>\<open>try\<close> block of
  \<open>search_brave\<close>, and when it counts as failed: \<open>transport_fails\<close> is a network error
  or an error status (\<^verbatim>\<open>requests.get\<close> or \<^verbatim>\<open>raise_for_status\<close> raises a
  \<^verbatim>\<open>RequestException\<close>); \<open>attempt_fails\<close> is any \<^verbatim>\<open>RequestException\<close> in the block.
\<close>

definition attempt_outcome :: "env \<Rightarrow> http_request \<Rightarrow> nat \<Rightarrow> pyexn + json" where
  "attempt_outcome env req k =
     (case http env k req of
        Inl e \<Rightarrow> Inl e
      | Inr response \<Rightarrow> (case raise_for_status response of Some e \<Rightarrow> Inl e | None \<Rightarrow> resp_json response))"

definition attempt_fails :: "env \<Rightarrow> http_request \<Rightarrow> nat \<Rightarrow> bool" where
  "attempt_fails env req k =
     (case attempt_outcome env req k of Inl e \<Rightarrow> is_RequestException e | Inr j \<Rightarrow> False)"


text \<open>
  One complete round of the \<^verbatim>\<open>while True\<close> loop that goes on to another: the model is
  asked, its reply carries tool calls, and all of them are executed without an exception.
  \<open>after_rounds n\<close> is the state after \<open>n\<close> such rounds, if the run gets that far.
\<close>

definition next_round :: "env \<Rightarrow> world \<Rightarrow> message list \<Rightarrow> (world \<times> message list) option" where
  "next_round env w history =
     (case llm env (llm_calls w) history of
        Inl e \<Rightarrow> None
      | Inr am \<Rightarrow>
          if requested_calls am = [] then None
          else (case run_tool_calls env (requested_calls am)
                       (echo_content am (w\<lparr>llm_calls := Suc (llm_calls w)\<rparr>))
                       (history @ [Assistant am]) of
                  (Inl e, w2, history2) \<Rightarrow> None
                | (Inr u, w2, history2) \<Rightarrow> Some (w2, history2)))"

fun after_rounds :: "nat \<Rightarrow> env \<Rightarrow> world \<Rightarrow> message list \<Rightarrow> (world \<times> message list) option" where
  "after_rounds 0 env w history = Some (w, history)"
| "after_rounds (Suc n) env w history =
     (case next_round env w history of
        None \<Rightarrow> None
      | Some (w2, history2) \<Rightarrow> after_rounds n env w2 history2)"

text \<open>
  The content the specification gives the tool result of a request that is executed in
  world \<open>w\<close>: the serialised search results, the diagnostic string, or the empty string.
\<close>

definition claimed_content :: "env \<Rightarrow> function_call \<Rightarrow> world \<Rightarrow> string \<Rightarrow> bool" where
  "claimed_content env fc w c =
     (case json_loads env (function_arguments fc) of
        Inl e \<Rightarrow> False
      | Inr args \<Rightarrow>
          if function_name fc \<noteq> ''search_brave'' then c = ''''
          else if py_in ''query'' args = Inr False then c = ''No query found in arguments''
          else if py_in ''query'' args = Inr True then
            (case py_getitem args ''query'' of
               Inl e \<Rightarrow> False
             | Inr query \<Rightarrow>
                 (case fst (search_brave env query 10 w) of
                    Inl e \<Rightarrow> False
                  | Inr search_result \<Rightarrow> c = json_dumps env (JArr (map asdict search_result))))
          else False)"

section \<open>Example worlds\<close>

text \<open>
  Concrete collaborators for the examples: an untouched world, a provider that refuses every
  connection, a model that answers at once, and the two \<^verbatim>\<open>json\<close> functions as finite
  tables of their values on the strings the examples use. The two blobs of the examples that
  do not decode are \<^verbatim>\<open>oops\<close> and \<^verbatim>\<open>not json\<close>; for both \<^verbatim>\<open>json.loads\<close> raises with
  the message of the last line of \<open>loads_table\<close>.
\<close>

definition w0 :: world where
  "w0 = \<lparr>http_log = [], sleeps = [], stdout = [], llm_calls = 0\<rparr>"

definition loads_table :: "string \<Rightarrow> pyexn + json" where
  \<open>loads_table s =
     (if s = ''{"query": "x"}'' then Inr (JObj [(''query'', JStr ''x'')])
      else if s = ''{}'' then Inr (JObj [])
      else Inl (JSONDecodeError ''Expecting value: line 1 column 1 (char 0)''))\<close>

definition dumps_table :: "json \<Rightarrow> string" where
  "dumps_table j = (if j = JArr [] then ''[]'' else [])"

definition env_base :: env where
  "env_base =
     \<lparr>environ = [''BRAVE_SEARCH_AI_API_KEY'' \<mapsto> ''secret''],
      http = (\<lambda>k req. Inl (RequestException ''Connection refused'')),
      llm = (\<lambda>k history. Inr \<lparr>content = Some ''42'', tool_calls = None\<rparr>),
      json_loads = loads_table,
      json_dumps = dumps_table\<rparr>"

definition resp_404 :: response where
  "resp_404 = \<lparr>status_code = 404,
               raise_for_status = Some (RequestException ''404 Client Error: Not Found''),
               resp_json = Inl (RequestsJSONDecodeError ''Expecting value: line 1 column 1 (char 0)'')\<rparr>"

definition resp_200 :: "pyexn + json \<Rightarrow> response" where
  "resp_200 body = \<lparr>status_code = 200, raise_for_status = None, resp_json = body\<rparr>"

definition env_garbled :: "pyexn \<Rightarrow> env" where
  "env_garbled e = env_base\<lparr>http := \<lambda>k req. Inr (resp_200 (Inl e))\<rparr>"
  \<comment> \<open>a provider whose every answer has status 200 and a body that \<^verbatim>\<open>response.json()\<close> rejects with \<open>e\<close>\<close>

definition fc_bad :: function_call where
  "fc_bad = \<lparr>call_id = ''call_1'', function_name = ''get_url_content'', function_arguments = ''oops''\<rparr>"

definition fc_bad_search :: function_call where
  "fc_bad_search = \<lparr>call_id = ''call_2'', function_name = ''search_brave'', function_arguments = ''not json''\<rparr>"

definition fc_no_query :: function_call where
  "fc_no_query = \<lparr>call_id = ''call_3'', function_name = ''search_brave'', function_arguments = ''{}''\<rparr>"

definition fc_other :: function_call where
  "fc_other = \<lparr>call_id = ''call_4'', function_name = ''get_url_content'', function_arguments = ''{}''\<rparr>"

definition env_tools :: "function_call list \<Rightarrow> env" where
  "env_tools fcs = env_base\<lparr>llm := \<lambda>k history. Inr \<lparr>content = None, tool_calls = Some fcs\<rparr>\<rparr>"
  \<comment> \<open>a model that asks for the same tool calls on every turn\<close>

definition env_once :: "function_call list \<Rightarrow> env" where
  "env_once fcs =
     env_base\<lparr>llm := \<lambda>k history.
       if k = 0 then Inr \<lparr>content = None, tool_calls = Some fcs\<rparr>
       else Inr \<lparr>content = Some ''42'', tool_calls = None\<rparr>\<rparr>"
  \<comment> \<open>a model that asks for tool calls once and then answers\<close>



definition env_garbled_second :: "pyexn \<Rightarrow> env" where
  "env_garbled_second e =
     env_base\<lparr>http := \<lambda>k req.
       if k = 0 then Inl (RequestException ''Connection refused'') else Inr (resp_200 (Inl e))\<rparr>"
  \<comment> \<open>a provider that refuses the first connection and then answers with status 200 and a body that \<^verbatim>\<open>response.json()\<close> rejects with \<open>e\<close>\<close>

section \<open>The content tool\<close>

text \<open>
  C6. When the response status is not 200, \<open>get_url_content\<close> returns a record with empty
  title and text and the error \<open>"Error: "\<close> followed by the status code, and it has sent
  exactly one request: there is no retry.
\<close>

theorem get_url_content_non_200:
  assumes "http env (length (http_log w)) (convert_request url) = Inr r"
    and "status_code r \<noteq> 200"
  shows "get_url_content env url w =
           (Inr \<lparr>uc_title = JStr '''', uc_text = JStr '''',
                  uc_error = JStr (''Error: '' @ str_int (status_code r))\<rparr>,
            w\<lparr>http_log := http_log w @ [convert_request url]\<rparr>)"
  using assms by (simp add: get_url_content_def send_def)

theorem get_url_content_non_200_witness:
  "get_url_content (env_base\<lparr>http := \<lambda>k req. Inr resp_404\<rparr>) ''https://example.org'' w0 =
     (Inr \<lparr>uc_title = JStr '''', uc_text = JStr '''', uc_error = JStr ''Error: 404''\<rparr>,
      w0\<lparr>http_log := [convert_request ''https://example.org'']\<rparr>)"
  using get_url_content_non_200 [of "env_base\<lparr>http := \<lambda>k req. Inr resp_404\<rparr>" w0 "''https://example.org''" resp_404]
  by (simp add: resp_404_def w0_def str_int_def str_nat.simps digit_char_def)

text \<open>
  C5, as amended. When the status is 200 and \<^verbatim>\<open>response.json()\<close> fails to decode the body
  (it raises a \<^verbatim>\<open>ValueError\<close>), the result is a record with empty title and text and the
  error \<open>"Error parsing response: "\<close> followed by the message; nothing is raised.
\<close>

theorem get_url_content_undecodable:
  assumes "http env (length (http_log w)) (convert_request url) = Inr r"
    and "status_code r = 200" and "resp_json r = Inl e" and "is_ValueError e"
  shows "get_url_content env url w =
           (Inr \<lparr>uc_title = JStr '''', uc_text = JStr '''',
                  uc_error = JStr (''Error parsing response: '' @ str_exn e)\<rparr>,
            w\<lparr>http_log := http_log w @ [convert_request url]\<rparr>)"
  using assms by (simp add: get_url_content_def send_def)

theorem get_url_content_undecodable_witness:
  "get_url_content (env_base\<lparr>http := \<lambda>k req. Inr (resp_200 (Inl (JSONDecodeError ''Expecting value: line 1 column 1 (char 0)'')))\<rparr>)
      ''https://example.org'' w0 =
     (Inr \<lparr>uc_title = JStr '''', uc_text = JStr '''',
            uc_error = JStr ''Error parsing response: Expecting value: line 1 column 1 (char 0)''\<rparr>,
      w0\<lparr>http_log := [convert_request ''https://example.org'']\<rparr>)"
  using get_url_content_undecodable [of "env_base\<lparr>http := \<lambda>k req. Inr (resp_200 (Inl (JSONDecodeError ''Expecting value: line 1 column 1 (char 0)'')))\<rparr>" w0 "''https://example.org''"
     "resp_200 (Inl (JSONDecodeError ''Expecting value: line 1 column 1 (char 0)''))" "JSONDecodeError ''Expecting value: line 1 column 1 (char 0)''"]
  by (simp add: resp_200_def w0_def)

text \<open>
  C5 as stated fails: a body that is valid JSON but not of the expected structure, here the
  object \<^verbatim>\<open>{"title": "T"}\<close> with no \<open>text\<close>, makes the constructor raise a
  \<^verbatim>\<open>TypeError\<close>, which \<^verbatim>\<open>except ValueError\<close> does not catch.
\<close>

theorem get_url_content_wrong_shape_counterexample:
  "get_url_content (env_base\<lparr>http := \<lambda>k req. Inr (resp_200 (Inr (JObj [(''title'', JStr ''T'')])))\<rparr>)
      ''https://example.org'' w0 =
     (Inl TypeError, w0\<lparr>http_log := [convert_request ''https://example.org'']\<rparr>)"
  by (simp add: get_url_content_def send_def resp_200_def w0_def)





section \<open>The search tool\<close>

text \<open>
  C4, as amended. With the empty string as query \<open>search_brave\<close> returns the empty list and
  leaves the world as it was. With the credential absent or empty it returns the empty list
  and sends no request, whatever the query; when the query is not empty it also prints the
  error line, and does nothing else.
\<close>

theorem search_brave_no_query_or_no_key:
  "search_brave env (JStr '''') count w = (Inr [], w)
   \<and> (environ env ''BRAVE_SEARCH_AI_API_KEY'' = None \<or> environ env ''BRAVE_SEARCH_AI_API_KEY'' = Some ''''
        \<longrightarrow> fst (search_brave env query count w) = Inr []
            \<and> http_log (snd (search_brave env query count w)) = http_log w
            \<and> (truthy query \<longrightarrow>
                 search_brave env query count w = (Inr [], print ''Error: Missing Brave Search API key.'' w)))"
  by (auto simp add: search_brave_def api_key_def print_def)

theorem search_brave_no_query_or_no_key_witness:
  "search_brave env_base (JStr '''') 10 w0 = (Inr [], w0)
   \<and> search_brave (env_base\<lparr>environ := Map.empty\<rparr>) (JStr ''x'') 10 w0 =
       (Inr [], w0\<lparr>stdout := [''Error: Missing Brave Search API key.'']\<rparr>)
   \<and> search_brave (env_base\<lparr>environ := [''BRAVE_SEARCH_AI_API_KEY'' \<mapsto> '''']\<rparr>) (JStr ''x'') 10 w0 =
       (Inr [], w0\<lparr>stdout := [''Error: Missing Brave Search API key.'']\<rparr>)"
  using search_brave_no_query_or_no_key [of env_base 10 w0 "JStr ''x''"]
    search_brave_no_query_or_no_key [of "env_base\<lparr>environ := Map.empty\<rparr>" 10 w0 "JStr ''x''"]
    search_brave_no_query_or_no_key [of "env_base\<lparr>environ := [''BRAVE_SEARCH_AI_API_KEY'' \<mapsto> '''']\<rparr>" 10 w0 "JStr ''x''"]
  by (simp add: print_def w0_def)

text \<open>
  C4 as stated fails: with the credential absent and the query empty, the function returns at
  its first check, before the credential is read, and prints nothing.
\<close>

theorem search_brave_silent_counterexample:
  "search_brave (env_base\<lparr>environ := Map.empty\<rparr>) (JStr '''') 10 w0 =
     (Inr [], \<lparr>http_log = [], sleeps = [], stdout = [], llm_calls = 0\<rparr>)"
  by (simp add: search_brave_def w0_def)

lemma brave_attempt_outcome:
  "brave_attempt env req w =
     (attempt_outcome env req (length (http_log w)), w\<lparr>http_log := http_log w @ [req]\<rparr>)"
  by (simp add: brave_attempt_def attempt_outcome_def send_def split: sum.splits option.splits)


text \<open>One round of the retry loop, by what the attempt yields.\<close>

lemma retry_loop_success:
  assumes "retries < max_retries"
    and "attempt_outcome env req (length (http_log w)) = Inr j"
  shows "brave_retry_loop env req retries w =
           (Inr (Some j), print ''Got results'' (w\<lparr>http_log := http_log w @ [req]\<rparr>))"
  using assms by (simp add: brave_retry_loop.simps [of env req retries w] brave_attempt_outcome)

lemma retry_loop_raise:
  assumes "retries < max_retries"
    and "attempt_outcome env req (length (http_log w)) = Inl e"
    and "\<not> is_RequestException e"
  shows "brave_retry_loop env req retries w = (Inl e, w\<lparr>http_log := http_log w @ [req]\<rparr>)"
  using assms by (simp add: brave_retry_loop.simps [of env req retries w] brave_attempt_outcome)

lemma retry_loop_last:
  assumes "retries < max_retries" and "\<not> retries + 1 < max_retries"
    and "attempt_outcome env req (length (http_log w)) = Inl e"
    and "is_RequestException e"
  shows "brave_retry_loop env req retries w =
           (Inr None, print (''HTTP Request failed: '' @ str_exn e @ '', retrying...'')
                        (w\<lparr>http_log := http_log w @ [req]\<rparr>))"
  using assms by (simp add: brave_retry_loop.simps [of env req retries w] brave_attempt_outcome)

lemma retry_loop_again:
  assumes "retries + 1 < max_retries"
    and "attempt_outcome env req (length (http_log w)) = Inl e"
    and "is_RequestException e"
  shows "brave_retry_loop env req retries w =
           brave_retry_loop env req (retries + 1)
             ((print (''HTTP Request failed: '' @ str_exn e @ '', retrying...'')
                 (w\<lparr>http_log := http_log w @ [req]\<rparr>))
                \<lparr>sleeps := sleeps w @ [backoff_factor ^ (retries + 1)]\<rparr>)"
  using assms by (simp add: brave_retry_loop.simps [of env req retries w] brave_attempt_outcome)

text \<open>
  What the whole loop does, from any round: \<open>n\<close> requests, each but the last after a failed
  attempt, with the sleeps \<open>backoff_factor ^ (retries + 1)\<close>, ... between them.
\<close>

lemma retry_loop_bounds:
  "retries < max_retries \<Longrightarrow> brave_retry_loop env req retries w = (res, w') \<Longrightarrow>
     \<exists>n. 1 \<le> n \<and> retries + n \<le> max_retries
        \<and> http_log w' = http_log w @ replicate n req
        \<and> sleeps w' = sleeps w @ map (\<lambda>i. backoff_factor ^ i) [retries + 1 ..< retries + n]
        \<and> llm_calls w' = llm_calls w
        \<and> (\<forall>i < n - 1. attempt_fails env req (length (http_log w) + i))
        \<and> (attempt_fails env req (length (http_log w) + (n - 1)) \<longrightarrow> retries + n = max_retries \<and> res = Inr None)"
proof (induction "max_retries - retries" arbitrary: retries w)
  case 0
  then show ?case by simp
next
  case (Suc d)
  let ?k = "length (http_log w)"
  show ?case
  proof (cases "attempt_outcome env req ?k")
    case (Inr j)
    with Suc.prems have "res = Inr (Some j)" and "w' = print ''Got results'' (w\<lparr>http_log := http_log w @ [req]\<rparr>)"
      by (simp_all add: retry_loop_success)
    with Inr Suc.prems(1) show ?thesis
      by (intro exI [of _ 1]) (simp add: print_def attempt_fails_def)
  next
    case (Inl e)
    show ?thesis
    proof (cases "is_RequestException e")
      case False
      with Inl Suc.prems have "res = Inl e" and "w' = w\<lparr>http_log := http_log w @ [req]\<rparr>"
        by (simp_all add: retry_loop_raise)
      with Inl False Suc.prems(1) show ?thesis
        by (intro exI [of _ 1]) (simp add: attempt_fails_def)
    next
      case True
      show ?thesis
      proof (cases "retries + 1 < max_retries")
        case False
        with Inl True Suc.prems have "res = Inr None"
          and "w' = print (''HTTP Request failed: '' @ str_exn e @ '', retrying...'') (w\<lparr>http_log := http_log w @ [req]\<rparr>)"
          by (simp_all add: retry_loop_last)
        with False Suc.prems(1) show ?thesis
          by (intro exI [of _ 1]) (simp add: print_def)
      next
        case again: True
        define w2 where "w2 = (print (''HTTP Request failed: '' @ str_exn e @ '', retrying...'')
                 (w\<lparr>http_log := http_log w @ [req]\<rparr>))\<lparr>sleeps := sleeps w @ [backoff_factor ^ (retries + 1)]\<rparr>"
        have loop: "brave_retry_loop env req (retries + 1) w2 = (res, w')"
          using retry_loop_again [OF again Inl True] Suc.prems(2) by (simp add: w2_def)
        have d: "d = max_retries - (retries + 1)"
          using Suc.hyps(2) by simp
        from Suc.hyps(1) [OF d again loop] obtain n where n:
          "1 \<le> n" "retries + 1 + n \<le> max_retries"
          "http_log w' = http_log w2 @ replicate n req"
          "sleeps w' = sleeps w2 @ map (\<lambda>i. backoff_factor ^ i) [retries + 1 + 1 ..< retries + 1 + n]"
          "llm_calls w' = llm_calls w2"
          "\<forall>i < n - 1. attempt_fails env req (length (http_log w2) + i)"
          "attempt_fails env req (length (http_log w2) + (n - 1)) \<longrightarrow> retries + 1 + n = max_retries \<and> res = Inr None"
          by blast
        have w2: "http_log w2 = http_log w @ [req]" "sleeps w2 = sleeps w @ [backoff_factor ^ (retries + 1)]"
          "llm_calls w2 = llm_calls w"
          by (simp_all add: w2_def print_def)
        have first: "attempt_fails env req ?k"
          using Inl True by (simp add: attempt_fails_def)
        have upt: "[retries + 1 ..< retries + Suc n] = (retries + 1) # [retries + 1 + 1 ..< retries + 1 + n]"
          using n(1) by (simp add: upt_conv_Cons)
        have fails: "\<forall>i < Suc n - 1. attempt_fails env req (?k + i)"
        proof (intro allI impI)
          fix i assume "i < Suc n - 1"
          show "attempt_fails env req (?k + i)"
          proof (cases i)
            case 0
            with first show ?thesis by simp
          next
            case (Suc i')
            with \<open>i < Suc n - 1\<close> have "i' < n - 1" by simp
            with n(6) w2(1) Suc show ?thesis by simp
          qed
        qed
        have lastc: "attempt_fails env req (?k + (Suc n - 1)) \<longrightarrow> retries + Suc n = max_retries \<and> res = Inr None"
          using n(1,7) w2(1) by (cases n) simp_all
        show ?thesis
          apply (intro exI [of _ "Suc n"])
          using n(1,2,3,4,5) w2 upt fails lastc
          by (simp add: replicate_append_same)
      qed
    qed
  qed
qed

lemma search_brave_loop:
  assumes "truthy query" and "api_key env \<noteq> []"
  shows "search_brave env query count w =
           (case brave_retry_loop env (brave_request env query count) 0 w of
              (Inl e, w1) \<Rightarrow> (Inl e, w1)
            | (Inr None, w1) \<Rightarrow> (Inr [], w1)
            | (Inr (Some results_json), w1) \<Rightarrow> (parse_results results_json, w1))"
  using assms by (simp add: search_brave_def)



text \<open>No \<^verbatim>\<open>RequestException\<close> ever leaves \<open>search_brave\<close>: the handler catches each one.\<close>

lemma retry_loop_escape:
  "brave_retry_loop env req retries w = (Inl e, w') \<Longrightarrow> \<not> is_RequestException e"
proof (induction env req retries w rule: brave_retry_loop.induct)
  case (1 env req retries w)
  show ?case
  proof (cases "retries < max_retries")
    case False
    with "1.prems" show ?thesis
      by (simp add: brave_retry_loop.simps [of env req retries w])
  next
    case True
    show ?thesis
    proof (cases "attempt_outcome env req (length (http_log w))")
      case (Inr j)
      with True "1.prems" show ?thesis by (simp add: retry_loop_success)
    next
      case (Inl e')
      show ?thesis
      proof (cases "is_RequestException e'")
        case False
        with Inl True "1.prems" show ?thesis by (simp add: retry_loop_raise)
      next
        case caught: True
        show ?thesis
        proof (cases "retries + 1 < max_retries")
          case False
          with caught Inl True "1.prems" show ?thesis by (simp add: retry_loop_last)
        next
          case again: True
          have att: "brave_attempt env req w = (Inl e', w\<lparr>http_log := http_log w @ [req]\<rparr>)"
            using Inl by (simp add: brave_attempt_outcome)
          from "1.prems" retry_loop_again [OF again Inl caught]
          show ?thesis
            using "1.IH" [OF True att [symmetric] refl caught again] by simp
        qed
      qed
    qed
  qed
qed

lemma py_get_error: "py_get j key dflt = Inl e \<Longrightarrow> e = AttributeError"
  by (cases j) simp_all

lemma py_iter_error: "py_iter j = Inl e \<Longrightarrow> e = TypeError"
  by (cases j) simp_all

lemma make_result_error: "make_result item = Inl e \<Longrightarrow> e = AttributeError"
  by (cases item) simp_all

lemma collect_results_error: "collect_results items results = Inl e \<Longrightarrow> e = AttributeError"
  by (induction items arbitrary: results) (auto split: sum.splits dest: make_result_error)

lemma parse_results_error: "parse_results j = Inl e \<Longrightarrow> \<not> is_RequestException e"
  by (auto simp: parse_results_def split: sum.splits
           dest: py_get_error py_iter_error collect_results_error)

lemma search_brave_escape:
  assumes "search_brave env query count w = (Inl e, w')"
  shows "\<not> is_RequestException e"
proof (cases "truthy query \<and> api_key env \<noteq> []")
  case False
  with assms show ?thesis
    by (auto simp: search_brave_def split: if_splits)
next
  case True
  obtain r w1 where loop: "brave_retry_loop env (brave_request env query count) 0 w = (r, w1)"
    by (cases "brave_retry_loop env (brave_request env query count) 0 w")
  show ?thesis
  proof (cases r)
    case (Inl e')
    with loop assms True have "e' = e"
      by (simp add: search_brave_loop)
    with Inl loop show ?thesis
      using retry_loop_escape by blast
  next
    case (Inr found)
    show ?thesis
    proof (cases found)
      case None
      with Inr loop assms True show ?thesis
        by (simp add: search_brave_loop)
    next
      case (Some j)
      with Inr loop assms True have "parse_results j = Inl e"
        by (simp add: search_brave_loop)
      then show ?thesis by (rule parse_results_error)
    qed
  qed
qed

text \<open>
  When the first \<open>k\<close> attempts from a round on all fail, the loop comes to the round
  \<open>retries + k\<close> having sent \<open>k\<close> requests and slept after each.
\<close>

lemma retry_loop_reach:
  "retries + k < max_retries \<Longrightarrow>
   \<forall>i < k. attempt_fails env req (length (http_log w) + i) \<Longrightarrow>
     \<exists>wk. brave_retry_loop env req retries w = brave_retry_loop env req (retries + k) wk
        \<and> http_log wk = http_log w @ replicate k req
        \<and> sleeps wk = sleeps w @ map (\<lambda>i. backoff_factor ^ i) [retries + 1 ..< retries + k + 1]"
proof (induction k arbitrary: retries w)
  case 0
  have "brave_retry_loop env req retries w = brave_retry_loop env req (retries + 0) w
        \<and> http_log w = http_log w @ replicate 0 req
        \<and> sleeps w = sleeps w @ map (\<lambda>i. backoff_factor ^ i) [retries + 1 ..< retries + 0 + 1]"
    by simp
  then show ?case by (rule exI)
next
  case (Suc k)
  from Suc.prems(2) have "attempt_fails env req (length (http_log w) + 0)"
    by blast
  then obtain e where out: "attempt_outcome env req (length (http_log w)) = Inl e"
    and caught: "is_RequestException e"
    by (auto simp: attempt_fails_def split: sum.splits)
  from Suc.prems(1) have again: "retries + 1 < max_retries" by simp
  define w2 where "w2 = (print (''HTTP Request failed: '' @ str_exn e @ '', retrying...'')
                 (w\<lparr>http_log := http_log w @ [req]\<rparr>))\<lparr>sleeps := sleeps w @ [backoff_factor ^ (retries + 1)]\<rparr>"
  have step: "brave_retry_loop env req retries w = brave_retry_loop env req (retries + 1) w2"
    using retry_loop_again [OF again out caught] by (simp add: w2_def)
  have w2: "http_log w2 = http_log w @ [req]" "sleeps w2 = sleeps w @ [backoff_factor ^ (retries + 1)]"
    by (simp_all add: w2_def print_def)
  have rest: "\<forall>i < k. attempt_fails env req (length (http_log w2) + i)"
  proof (intro allI impI)
    fix i assume "i < k"
    then have "Suc i < Suc k" by simp
    with Suc.prems(2) have "attempt_fails env req (length (http_log w) + Suc i)" by blast
    with w2(1) show "attempt_fails env req (length (http_log w2) + i)" by simp
  qed
  from Suc.prems(1) have "retries + 1 + k < max_retries" by simp
  from Suc.IH [OF this rest] obtain wk where wk:
    "brave_retry_loop env req (retries + 1) w2 = brave_retry_loop env req (retries + 1 + k) wk"
    "http_log wk = http_log w2 @ replicate k req"
    "sleeps wk = sleeps w2 @ map (\<lambda>i. backoff_factor ^ i) [retries + 1 + 1 ..< retries + 1 + k + 1]"
    by blast
  have upt: "[retries + 1 ..< retries + Suc k + 1] = (retries + 1) # [retries + 1 + 1 ..< retries + 1 + k + 1]"
    by (simp add: upt_conv_Cons)
  have "brave_retry_loop env req retries w = brave_retry_loop env req (retries + Suc k) wk"
    using step wk(1) by simp
  moreover have "http_log wk = http_log w @ replicate (Suc k) req"
    using wk(2) w2(1) by (simp add: replicate_append_same)
  moreover have "sleeps wk = sleeps w @ map (\<lambda>i. backoff_factor ^ i) [retries + 1 ..< retries + Suc k + 1]"
    using wk(3) w2(2) upt by simp
  ultimately show ?case by blast
qed

lemma search_brave_of_loop:
  assumes "truthy query" and "api_key env \<noteq> []"
    and "brave_retry_loop env (brave_request env query count) 0 w = (lr, w1)"
  shows "snd (search_brave env query count w) = w1"
    and "lr = Inl e \<Longrightarrow> fst (search_brave env query count w) = Inl e"
    and "lr = Inr None \<Longrightarrow> fst (search_brave env query count w) = Inr []"
  using assms(3) search_brave_loop [OF assms(1,2), of count w]
  by (auto split: sum.splits option.splits)

text \<open>
  C8, as amended. Let the first \<open>k\<close> attempts of a call fail and be caught, and let the
  response of the next attempt pass \<^verbatim>\<open>raise_for_status()\<close> while \<^verbatim>\<open>response.json()\<close>
  raises \<open>e\<close>. If \<open>e\<close> is no \<^verbatim>\<open>RequestException\<close> (the \<^verbatim>\<open>json.JSONDecodeError\<close> of
  requests before 2.27), it leaves \<open>search_brave\<close> uncaught after that request. If it is
  one (\<^verbatim>\<open>requests.exceptions.JSONDecodeError\<close>, since requests 2.27), the handler catches
  it and \<open>e\<close> does not leave the function: on the first or second attempt another attempt
  follows after the backoff sleep (2 seconds after the first, 4 after the second), on the
  third the result is the empty list.
\<close>

theorem search_brave_decode_failure:
  assumes "truthy query" and "api_key env \<noteq> []" and "k < 3"
    and "\<forall>i < k. attempt_fails env (brave_request env query count) (length (http_log w) + i)"
    and "http env (length (http_log w) + k) (brave_request env query count) = Inr r"
    and "raise_for_status r = None" and "resp_json r = Inl e"
  shows "(\<not> is_RequestException e \<longrightarrow>
            fst (search_brave env query count w) = Inl e
            \<and> http_log (snd (search_brave env query count w)) =
                http_log w @ replicate (k + 1) (brave_request env query count)
            \<and> sleeps (snd (search_brave env query count w)) = sleeps w @ map (\<lambda>i. 2 ^ i) [1..<k + 1])
       \<and> (is_RequestException e \<longrightarrow>
            fst (search_brave env query count w) \<noteq> Inl e
            \<and> (k < 2 \<longrightarrow>
                  length (http_log w) + k + 2 \<le> length (http_log (snd (search_brave env query count w)))
                  \<and> take (k + 1) (drop (length (sleeps w)) (sleeps (snd (search_brave env query count w))))
                      = map (\<lambda>i. 2 ^ i) [1..<k + 2])
            \<and> (k = 2 \<longrightarrow>
                  fst (search_brave env query count w) = Inr []
                  \<and> http_log (snd (search_brave env query count w)) =
                      http_log w @ replicate 3 (brave_request env query count)
                  \<and> sleeps (snd (search_brave env query count w)) = sleeps w @ [2, 4]))"
proof -
  let ?req = "brave_request env query count"
  let ?S = "search_brave env query count w"
  from assms(3) have "0 + k < max_retries" by (simp add: max_retries_def)
  from retry_loop_reach [OF this assms(4)] obtain wk where wk:
    "brave_retry_loop env ?req 0 w = brave_retry_loop env ?req k wk"
    "http_log wk = http_log w @ replicate k ?req"
    "sleeps wk = sleeps w @ map (\<lambda>i. 2 ^ i) [1..<k + 1]"
    by (auto simp: backoff_factor_def)
  have out: "attempt_outcome env ?req (length (http_log wk)) = Inl e"
    using assms(5-7) wk(2) by (simp add: attempt_outcome_def)
  have kmax: "k < max_retries"
    using assms(3) by (simp add: max_retries_def)
  have raise: "fst ?S = Inl e \<and> http_log (snd ?S) = http_log w @ replicate (k + 1) ?req
      \<and> sleeps (snd ?S) = sleeps w @ map (\<lambda>i. 2 ^ i) [1..<k + 1]"
    if uncaught: "\<not> is_RequestException e"
  proof -
    have loop: "brave_retry_loop env ?req 0 w = (Inl e, wk\<lparr>http_log := http_log wk @ [?req]\<rparr>)"
      using retry_loop_raise [OF kmax out uncaught] wk(1) by simp
    from search_brave_of_loop(1,2) [OF assms(1,2) loop] wk(2,3)
    show ?thesis by (simp add: replicate_append_same)
  qed
  have caught_escape: "fst ?S \<noteq> Inl e" if caught: "is_RequestException e"
  proof
    assume "fst ?S = Inl e"
    then have "?S = (Inl e, snd ?S)" by (metis prod.collapse)
    from search_brave_escape [OF this] caught show False by simp
  qed
  have retry: "length (http_log w) + k + 2 \<le> length (http_log (snd ?S))
      \<and> take (k + 1) (drop (length (sleeps w)) (sleeps (snd ?S))) = map (\<lambda>i. 2 ^ i) [1..<k + 2]"
    if caught: "is_RequestException e" and early: "k < 2"
  proof -
    from early have again: "k + 1 < max_retries" by (simp add: max_retries_def)
    define w2 where "w2 = (print (''HTTP Request failed: '' @ str_exn e @ '', retrying...'')
                 (wk\<lparr>http_log := http_log wk @ [?req]\<rparr>))\<lparr>sleeps := sleeps wk @ [backoff_factor ^ (k + 1)]\<rparr>"
    have step: "brave_retry_loop env ?req k wk = brave_retry_loop env ?req (k + 1) w2"
      using retry_loop_again [OF again out caught] by (simp add: w2_def)
    have w2: "http_log w2 = http_log wk @ [?req]" "sleeps w2 = sleeps wk @ [2 ^ (k + 1)]"
      by (simp_all add: w2_def print_def backoff_factor_def)
    obtain lr w1 where loop: "brave_retry_loop env ?req (k + 1) w2 = (lr, w1)"
      by (cases "brave_retry_loop env ?req (k + 1) w2")
    from retry_loop_bounds [OF again loop] obtain n where n:
      "1 \<le> n" "http_log w1 = http_log w2 @ replicate n ?req"
      "sleeps w1 = sleeps w2 @ map (\<lambda>i. backoff_factor ^ i) [k + 1 + 1 ..< k + 1 + n]"
      by blast
    have "brave_retry_loop env ?req 0 w = (lr, w1)"
      using wk(1) step loop by simp
    from search_brave_of_loop(1) [OF assms(1,2) this] have world: "snd ?S = w1" .
    have "length (http_log w1) = length (http_log w) + k + 1 + n"
      using n(2) w2(1) wk(2) by simp
    with n(1) have a: "length (http_log w) + k + 2 \<le> length (http_log w1)"
      by simp
    have "map (\<lambda>i. 2 ^ i) [1..<k + 1] @ [2 ^ (k + 1)] = map (\<lambda>i. (2::int) ^ i) [1..<k + 2]"
      by simp
    then have "sleeps w1 = sleeps w @ map (\<lambda>i. 2 ^ i) [1..<k + 2]
                 @ map (\<lambda>i. backoff_factor ^ i) [k + 1 + 1 ..< k + 1 + n]"
      using n(3) w2(2) wk(3) by simp
    then have b: "take (k + 1) (drop (length (sleeps w)) (sleeps w1)) = map (\<lambda>i. 2 ^ i) [1..<k + 2]"
      by simp
    from a b world show ?thesis by simp
  qed
  have final: "fst ?S = Inr [] \<and> http_log (snd ?S) = http_log w @ replicate 3 ?req
      \<and> sleeps (snd ?S) = sleeps w @ [2, 4]"
    if caught: "is_RequestException e" and third: "k = 2"
  proof -
    from third have stop: "\<not> k + 1 < max_retries" by (simp add: max_retries_def)
    have loop: "brave_retry_loop env ?req 0 w =
        (Inr None, print (''HTTP Request failed: '' @ str_exn e @ '', retrying...'')
                     (wk\<lparr>http_log := http_log wk @ [?req]\<rparr>))"
      using retry_loop_last [OF kmax stop out caught] wk(1) by simp
    have "map (\<lambda>i. (2::int) ^ i) [1..<3] = [2, 4]"
      by (simp add: upt_rec)
    with search_brave_of_loop(1,3) [OF assms(1,2) loop] wk(2,3) third
    show ?thesis by (simp add: print_def replicate_append_same numeral_3_eq_3 numeral_2_eq_2)
  qed
  from raise caught_escape retry final show ?thesis by blast
qed

theorem search_brave_decode_failure_witness:
  "fst (search_brave (env_garbled_second (JSONDecodeError ''Expecting value: line 1 column 1 (char 0)''))
          (JStr ''x'') 10 w0) = Inl (JSONDecodeError ''Expecting value: line 1 column 1 (char 0)'')
   \<and> http_log (snd (search_brave (env_garbled_second (JSONDecodeError ''Expecting value: line 1 column 1 (char 0)''))
          (JStr ''x'') 10 w0)) = replicate 2 (brave_request env_base (JStr ''x'') 10)
   \<and> sleeps (snd (search_brave (env_garbled_second (JSONDecodeError ''Expecting value: line 1 column 1 (char 0)''))
          (JStr ''x'') 10 w0)) = [2]
   \<and> fst (search_brave (env_garbled_second (RequestsJSONDecodeError ''Expecting value: line 1 column 1 (char 0)''))
          (JStr ''x'') 10 w0) \<noteq> Inl (RequestsJSONDecodeError ''Expecting value: line 1 column 1 (char 0)'')
   \<and> take 2 (sleeps (snd (search_brave
          (env_garbled_second (RequestsJSONDecodeError ''Expecting value: line 1 column 1 (char 0)''))
          (JStr ''x'') 10 w0))) = [2, 4]"
proof -
  let ?old = "JSONDecodeError ''Expecting value: line 1 column 1 (char 0)''"
  let ?new = "RequestsJSONDecodeError ''Expecting value: line 1 column 1 (char 0)''"
  have q: "truthy (JStr ''x'')" by simp
  have key: "api_key (env_garbled_second e) \<noteq> []" for e
    by (simp add: api_key_def env_garbled_second_def env_base_def)
  have req: "brave_request (env_garbled_second e) (JStr ''x'') 10 = brave_request env_base (JStr ''x'') 10" for e
    by (simp add: brave_request_def api_key_def env_garbled_second_def env_base_def)
  have k: "(1::nat) < 3" by simp
  have before: "\<forall>i < 1. attempt_fails (env_garbled_second e)
      (brave_request (env_garbled_second e) (JStr ''x'') 10) (length (http_log w0) + i)" for e
    by (simp add: attempt_fails_def attempt_outcome_def env_garbled_second_def w0_def)
  have resp: "http (env_garbled_second e) (length (http_log w0) + 1)
      (brave_request (env_garbled_second e) (JStr ''x'') 10) = Inr (resp_200 (Inl e))" for e
    by (simp add: env_garbled_second_def)
  have ok: "raise_for_status (resp_200 (Inl e)) = None" and body: "resp_json (resp_200 (Inl e)) = Inl e" for e
    by (simp_all add: resp_200_def)
  have two: "map (\<lambda>i. (2::int) ^ i) [1..<1 + 1] = [2]" "map (\<lambda>i. (2::int) ^ i) [1..<1 + 2] = [2, 4]"
    by (simp_all add: upt_rec)
  from search_brave_decode_failure [OF q key [of ?old] k before [of ?old] resp [of ?old] ok [of ?old] body [of ?old]]
  have old: "fst (search_brave (env_garbled_second ?old) (JStr ''x'') 10 w0) = Inl ?old
      \<and> http_log (snd (search_brave (env_garbled_second ?old) (JStr ''x'') 10 w0)) =
          replicate 2 (brave_request env_base (JStr ''x'') 10)
      \<and> sleeps (snd (search_brave (env_garbled_second ?old) (JStr ''x'') 10 w0)) = [2]"
    using two(1) by (simp add: req w0_def numeral_2_eq_2)
  from search_brave_decode_failure [OF q key [of ?new] k before [of ?new] resp [of ?new] ok [of ?new] body [of ?new]]
  have new: "fst (search_brave (env_garbled_second ?new) (JStr ''x'') 10 w0) \<noteq> Inl ?new
      \<and> take 2 (sleeps (snd (search_brave (env_garbled_second ?new) (JStr ''x'') 10 w0))) = [2, 4]"
    using two(2) by (simp add: w0_def numeral_2_eq_2)
  from old new show ?thesis by blast
qed

text \<open>
  C8 as stated fails with requests 2.27 or later: the decode failure is a
  \<^verbatim>\<open>RequestException\<close>, so each of the three attempts is caught and retried, and the result
  is the empty list after sleeps of 2 and 4 seconds.
\<close>

theorem search_brave_decode_retried_counterexample:
  "search_brave (env_garbled (RequestsJSONDecodeError ''Expecting value: line 1 column 1 (char 0)'')) (JStr ''x'') 10 w0 =
     (Inr [],
      \<lparr>http_log = replicate 3 (brave_request env_base (JStr ''x'') 10),
       sleeps = [2, 4],
       stdout = replicate 3 ''HTTP Request failed: Expecting value: line 1 column 1 (char 0), retrying...'',
       llm_calls = 0\<rparr>)"
proof -
  let ?e = "RequestsJSONDecodeError ''Expecting value: line 1 column 1 (char 0)''"
  let ?env = "env_garbled ?e"
  let ?req = "brave_request ?env (JStr ''x'') 10"
  let ?line = "''HTTP Request failed: Expecting value: line 1 column 1 (char 0), retrying...''"
  have out: "attempt_outcome ?env ?req k = Inl ?e" for k
    by (simp add: attempt_outcome_def env_garbled_def resp_200_def)
  have caught: "is_RequestException ?e" by simp
  have key: "api_key ?env \<noteq> []"
    by (simp add: api_key_def env_garbled_def env_base_def)
  have req: "?req = brave_request env_base (JStr ''x'') 10"
    by (simp add: brave_request_def api_key_def env_garbled_def env_base_def)
  have one: "brave_retry_loop ?env ?req 0 w0 =
               brave_retry_loop ?env ?req 1 \<lparr>http_log = [?req], sleeps = [2], stdout = [?line], llm_calls = 0\<rparr>"
    using retry_loop_again [of 0 ?env ?req w0 ?e] out caught
    by (simp add: max_retries_def backoff_factor_def print_def w0_def)
  have two: "brave_retry_loop ?env ?req 1 \<lparr>http_log = [?req], sleeps = [2], stdout = [?line], llm_calls = 0\<rparr> =
               brave_retry_loop ?env ?req 2
                 \<lparr>http_log = [?req, ?req], sleeps = [2, 4], stdout = [?line, ?line], llm_calls = 0\<rparr>"
    using retry_loop_again [of 1 ?env ?req "\<lparr>http_log = [?req], sleeps = [2], stdout = [?line], llm_calls = 0\<rparr>" ?e]
      out caught
    by (simp add: max_retries_def backoff_factor_def print_def numeral_2_eq_2)
  have three: "brave_retry_loop ?env ?req 2
                 \<lparr>http_log = [?req, ?req], sleeps = [2, 4], stdout = [?line, ?line], llm_calls = 0\<rparr> =
               (Inr None, \<lparr>http_log = [?req, ?req, ?req], sleeps = [2, 4],
                           stdout = [?line, ?line, ?line], llm_calls = 0\<rparr>)"
    using retry_loop_last [of 2 ?env ?req
        "\<lparr>http_log = [?req, ?req], sleeps = [2, 4], stdout = [?line, ?line], llm_calls = 0\<rparr>" ?e]
      out caught
    by (simp add: max_retries_def print_def numeral_2_eq_2)
  have "search_brave ?env (JStr ''x'') 10 w0 =
          (Inr [], \<lparr>http_log = [?req, ?req, ?req], sleeps = [2, 4],
                    stdout = [?line, ?line, ?line], llm_calls = 0\<rparr>)"
    using search_brave_loop [of "JStr ''x''" ?env 10 w0] key one two three
    by simp
  then show ?thesis
    by (simp add: req numeral_3_eq_3)
qed

section \<open>The orchestration loop\<close>

lemma process_loop_return:
  assumes "llm env (llm_calls w) history = Inr am" and "requested_calls am = []"
  shows "process_loop env w history =
           Some (Inr (content am), w\<lparr>llm_calls := Suc (llm_calls w)\<rparr>, history @ [Assistant am])"
  using assms by (subst process_loop.simps) (simp add: ask_llm_def)

lemma process_loop_abort:
  assumes "llm env (llm_calls w) history = Inr am" and "requested_calls am \<noteq> []"
    and "run_tool_calls env (requested_calls am) (echo_content am (w\<lparr>llm_calls := Suc (llm_calls w)\<rparr>))
           (history @ [Assistant am]) = (Inl e, w2, history2)"
  shows "process_loop env w history = Some (Inl e, w2, history2)"
  using assms by (subst process_loop.simps) (simp add: ask_llm_def)

lemma process_loop_next_round:
  assumes "next_round env w history = Some (w2, history2)"
  shows "process_loop env w history = process_loop env w2 history2"
  using assms
  by (subst process_loop.simps)
     (auto simp: ask_llm_def next_round_def split: sum.splits if_splits prod.splits)

lemma process_loop_after_rounds:
  "after_rounds n env w history = Some (w', history') \<Longrightarrow>
     process_loop env w history = process_loop env w' history'"
proof (induction n arbitrary: w history)
  case 0
  then show ?case by simp
next
  case (Suc n)
  then obtain w2 history2 where step: "next_round env w history = Some (w2, history2)"
    and rest: "after_rounds n env w2 history2 = Some (w', history')"
    by (auto split: option.splits)
  from process_loop_next_round [OF step] Suc.IH [OF rest] show ?case by simp
qed

lemma after_rounds_Suc:
  "next_round env w history = Some (w2, history2) \<Longrightarrow>
     after_rounds (Suc n) env w history = after_rounds n env w2 history2"
  by simp

text \<open>A run that returns a value has, after some number of rounds, met a reply without tool calls.\<close>

lemma process_loop_returns_only:
  assumes "process_loop env w history = Some y"
  shows "y = (Inr c, w'', h'') \<longrightarrow>
           (\<exists>n w' h' am. after_rounds n env w history = Some (w', h')
              \<and> llm env (llm_calls w') h' = Inr am \<and> requested_calls am = []
              \<and> c = content am \<and> w'' = w'\<lparr>llm_calls := Suc (llm_calls w')\<rparr>
              \<and> h'' = h' @ [Assistant am])"
    (is "?P env w history y")
proof (rule process_loop.raw_induct [where P = ?P, OF _ assms])
  fix loop :: "env \<Rightarrow> world \<Rightarrow> message list \<Rightarrow> ((pyexn + string option) \<times> world \<times> message list) option"
  fix env w history y
  assume IH: "\<And>env w history y. loop env w history = Some y \<Longrightarrow> ?P env w history y"
  assume body: "(case ask_llm env w history of
        (Inl e, w1) \<Rightarrow> Some (Inl e, w1, history)
      | (Inr am, w1) \<Rightarrow>
          if requested_calls am \<noteq> [] then
            (case run_tool_calls env (requested_calls am) (echo_content am w1) (history @ [Assistant am]) of
               (Inl e, w2, history2) \<Rightarrow> Some (Inl e, w2, history2)
             | (Inr u, w2, history2) \<Rightarrow> loop env w2 history2)
          else Some (Inr (content am), w1, history @ [Assistant am])) = Some y"
  show "?P env w history y"
  proof (cases "llm env (llm_calls w) history")
    case (Inl e)
    with body show ?thesis
      by (auto simp: ask_llm_def)
  next
    case (Inr am)
    show ?thesis
    proof (cases "requested_calls am = []")
      case True
      with Inr body have "y = (Inr (content am), w\<lparr>llm_calls := Suc (llm_calls w)\<rparr>, history @ [Assistant am])"
        by (auto simp: ask_llm_def)
      moreover have "after_rounds 0 env w history = Some (w, history)"
        by simp
      ultimately show ?thesis
        using Inr True by blast
    next
      case False
      obtain r w2 history2 where run: "run_tool_calls env (requested_calls am)
          (echo_content am (w\<lparr>llm_calls := Suc (llm_calls w)\<rparr>)) (history @ [Assistant am]) = (r, w2, history2)"
        using prod_cases3 by blast
      show ?thesis
      proof (cases r)
        case (Inl e)
        with run Inr False body show ?thesis
          by (auto simp: ask_llm_def)
      next
        case ok: (Inr u)
        with run Inr False body have again: "loop env w2 history2 = Some y"
          by (auto simp: ask_llm_def)
        have step: "next_round env w history = Some (w2, history2)"
          using run Inr False ok by (simp add: next_round_def)
        show ?thesis
        proof
          assume "y = (Inr c, w'', h'')"
          with IH [OF again] obtain n w' h' am' where found:
            "after_rounds n env w2 history2 = Some (w', h')"
            "llm env (llm_calls w') h' = Inr am'" "requested_calls am' = []"
            "c = content am'" "w'' = w'\<lparr>llm_calls := Suc (llm_calls w')\<rparr>" "h'' = h' @ [Assistant am']"
            by blast
          from found(1) step have "after_rounds (Suc n) env w history = Some (w', h')"
            by simp
          with found(2-6) show "\<exists>n w' h' am. after_rounds n env w history = Some (w', h')
              \<and> llm env (llm_calls w') h' = Inr am \<and> requested_calls am = []
              \<and> c = content am \<and> w'' = w'\<lparr>llm_calls := Suc (llm_calls w')\<rparr>
              \<and> h'' = h' @ [Assistant am]"
            by blast
        qed
      qed
    qed
  qed
qed

text \<open>A run that ends at all, by a return or an exception, has a last round.\<close>

lemma process_loop_ends_only:
  assumes "process_loop env w history = Some y"
  shows "\<exists>n w' h'. after_rounds n env w history = Some (w', h') \<and> next_round env w' h' = None"
    (is "?P env w history y")
proof (rule process_loop.raw_induct [where P = ?P, OF _ assms])
  fix loop :: "env \<Rightarrow> world \<Rightarrow> message list \<Rightarrow> ((pyexn + string option) \<times> world \<times> message list) option"
  fix env w history y
  assume IH: "\<And>env w history y. loop env w history = Some y \<Longrightarrow> ?P env w history y"
  assume body: "(case ask_llm env w history of
        (Inl e, w1) \<Rightarrow> Some (Inl e, w1, history)
      | (Inr am, w1) \<Rightarrow>
          if requested_calls am \<noteq> [] then
            (case run_tool_calls env (requested_calls am) (echo_content am w1) (history @ [Assistant am]) of
               (Inl e, w2, history2) \<Rightarrow> Some (Inl e, w2, history2)
             | (Inr u, w2, history2) \<Rightarrow> loop env w2 history2)
          else Some (Inr (content am), w1, history @ [Assistant am])) = Some y"
  show "?P env w history y"
  proof (cases "next_round env w history")
    case None
    moreover have "after_rounds 0 env w history = Some (w, history)" by simp
    ultimately show ?thesis by blast
  next
    case (Some s)
    obtain w2 history2 where s: "s = (w2, history2)" by (cases s)
    with Some body have "loop env w2 history2 = Some y"
      by (auto simp: ask_llm_def next_round_def split: sum.splits if_splits prod.splits)
    from IH [OF this] obtain n w' h' where found:
      "after_rounds n env w2 history2 = Some (w', h')" "next_round env w' h' = None"
      by blast
    from found(1) Some s have "after_rounds (Suc n) env w history = Some (w', h')"
      by simp
    with found(2) show ?thesis by blast
  qed
qed

lemma after_rounds_stuck:
  "after_rounds n env w history = Some (w', h') \<Longrightarrow> next_round env w' h' = None \<Longrightarrow>
     after_rounds (Suc n) env w history = None"
proof (induction n arbitrary: w history)
  case 0
  then show ?case by simp
next
  case (Suc n)
  then obtain w2 history2 where step: "next_round env w history = Some (w2, history2)"
    and rest: "after_rounds n env w2 history2 = Some (w', h')"
    by (auto split: option.splits)
  from Suc.IH [OF rest Suc.prems(2)] step show ?case by simp
qed


text \<open>
  C1. Whenever, after any number of completed tool rounds, the model's reply carries no
  tool calls, \<open>process_user_query\<close> terminates and returns that reply's content. In
  particular, when the first reply has no tool calls and content \<open>"42"\<close>, the result is
  \<open>"42"\<close> and the conversation is the system message, the user message with the raw query,
  and the reply: exactly two messages precede the reply.
\<close>

theorem process_user_query_final_answer:
  "(after_rounds n env w [System first_llm_system_prompt, User query] = Some (w', h')
      \<and> llm env (llm_calls w') h' = Inr am \<and> requested_calls am = []
    \<longrightarrow> process_user_query env query w =
          Some (Inr (content am), w'\<lparr>llm_calls := Suc (llm_calls w')\<rparr>, h' @ [Assistant am]))
   \<and> (llm env (llm_calls w) [System first_llm_system_prompt, User query] = Inr am
        \<and> requested_calls am = [] \<and> content am = Some ''42''
    \<longrightarrow> process_user_query env query w =
          Some (Inr (Some ''42''), w\<lparr>llm_calls := Suc (llm_calls w)\<rparr>,
                [System first_llm_system_prompt, User query, Assistant am]))"
proof (intro conjI impI)
  assume a: "after_rounds n env w [System first_llm_system_prompt, User query] = Some (w', h')
      \<and> llm env (llm_calls w') h' = Inr am \<and> requested_calls am = []"
  then have "process_loop env w [System first_llm_system_prompt, User query] = process_loop env w' h'"
    using process_loop_after_rounds by blast
  with a show "process_user_query env query w =
          Some (Inr (content am), w'\<lparr>llm_calls := Suc (llm_calls w')\<rparr>, h' @ [Assistant am])"
    by (simp add: process_user_query_def process_loop_return)
next
  assume "llm env (llm_calls w) [System first_llm_system_prompt, User query] = Inr am
        \<and> requested_calls am = [] \<and> content am = Some ''42''"
  then show "process_user_query env query w =
          Some (Inr (Some ''42''), w\<lparr>llm_calls := Suc (llm_calls w)\<rparr>,
                [System first_llm_system_prompt, User query, Assistant am])"
    using process_loop_return [of env w "[System first_llm_system_prompt, User query]" am]
    by (simp add: process_user_query_def)
qed

theorem process_user_query_final_answer_witness:
  "process_user_query env_base ''What is six times seven?'' w0 =
     Some (Inr (Some ''42''), w0\<lparr>llm_calls := 1\<rparr>,
           [System first_llm_system_prompt, User ''What is six times seven?'',
            Assistant \<lparr>content = Some ''42'', tool_calls = None\<rparr>])
   \<and> process_user_query (env_once [fc_other]) ''q'' w0 =
     Some (Inr (Some ''42''), w0\<lparr>llm_calls := 2\<rparr>,
           [System first_llm_system_prompt, User ''q'',
            Assistant \<lparr>content = None, tool_calls = Some [fc_other]\<rparr>, Tool ''call_4'' '''',
            Assistant \<lparr>content = Some ''42'', tool_calls = None\<rparr>])"
proof -
  have round: "after_rounds 1 (env_once [fc_other]) w0 [System first_llm_system_prompt, User ''q''] =
      Some (w0\<lparr>llm_calls := 1\<rparr>,
            [System first_llm_system_prompt, User ''q'',
             Assistant \<lparr>content = None, tool_calls = Some [fc_other]\<rparr>, Tool ''call_4'' ''''])"
    by (simp add: next_round_def env_once_def env_base_def requested_calls_def echo_content_def
          exec_tool_call_def loads_table_def fc_other_def w0_def)
  from process_user_query_final_answer [of 0 env_base w0 "''What is six times seven?''" w0
      "[System first_llm_system_prompt, User ''What is six times seven?'']"
      "\<lparr>content = Some ''42'', tool_calls = None\<rparr>"]
  have first: "process_user_query env_base ''What is six times seven?'' w0 =
     Some (Inr (Some ''42''), w0\<lparr>llm_calls := 1\<rparr>,
           [System first_llm_system_prompt, User ''What is six times seven?'',
            Assistant \<lparr>content = Some ''42'', tool_calls = None\<rparr>])"
    by (simp add: env_base_def requested_calls_def w0_def)
  from process_user_query_final_answer [of 1 "env_once [fc_other]" w0 "''q''" "w0\<lparr>llm_calls := 1\<rparr>"
      "[System first_llm_system_prompt, User ''q'',
        Assistant \<lparr>content = None, tool_calls = Some [fc_other]\<rparr>, Tool ''call_4'' '''']"
      "\<lparr>content = Some ''42'', tool_calls = None\<rparr>"] round
  have second: "process_user_query (env_once [fc_other]) ''q'' w0 =
     Some (Inr (Some ''42''), w0\<lparr>llm_calls := 2\<rparr>,
           [System first_llm_system_prompt, User ''q'',
            Assistant \<lparr>content = None, tool_calls = Some [fc_other]\<rparr>, Tool ''call_4'' '''',
            Assistant \<lparr>content = Some ''42'', tool_calls = None\<rparr>])"
    by (simp add: env_once_def env_base_def requested_calls_def w0_def)
  from first second show ?thesis by (rule conjI)
qed

lemma next_round_fc_other:
  "next_round (env_tools [fc_other]) w history =
     Some (w\<lparr>llm_calls := Suc (llm_calls w)\<rparr>,
           history @ [Assistant \<lparr>content = None, tool_calls = Some [fc_other]\<rparr>, Tool ''call_4'' ''''])"
  by (simp add: next_round_def env_tools_def env_base_def requested_calls_def echo_content_def
        exec_tool_call_def loads_table_def fc_other_def)

lemma after_rounds_fc_other: "after_rounds n (env_tools [fc_other]) w history \<noteq> None"
  by (induction n arbitrary: w history) (simp_all add: next_round_fc_other)

text \<open>
  C9, as amended. The loop has no turn limit. \<open>process_user_query\<close> returns a value exactly
  when, after some number of completed rounds, the model emits a reply with no tool calls; a
  round whose reply carries tool calls, all executed without an exception, is followed by
  another iteration on the extended conversation; if the model never emits a reply without
  tool calls the function never returns a value; and if every round completes, it runs
  forever.
\<close>

theorem process_user_query_unbounded:
  "(process_user_query env query w = Some (Inr c, w'', h'') \<longleftrightarrow>
      (\<exists>n w' h' am. after_rounds n env w [System first_llm_system_prompt, User query] = Some (w', h')
          \<and> llm env (llm_calls w') h' = Inr am \<and> requested_calls am = []
          \<and> c = content am \<and> w'' = w'\<lparr>llm_calls := Suc (llm_calls w')\<rparr>
          \<and> h'' = h' @ [Assistant am]))
   \<and> (next_round env w1 h1 = Some (w2, h2) \<longrightarrow> process_loop env w1 h1 = process_loop env w2 h2)
   \<and> ((\<forall>k h am. llm env k h = Inr am \<longrightarrow> requested_calls am \<noteq> [])
        \<longrightarrow> process_user_query env query w \<noteq> Some (Inr c, w'', h''))
   \<and> ((\<forall>n. after_rounds n env w [System first_llm_system_prompt, User query] \<noteq> None)
        \<longrightarrow> process_user_query env query w = None)"
proof -
  let ?init = "[System first_llm_system_prompt, User query]"
  let ?R = "\<exists>n w' h' am. after_rounds n env w ?init = Some (w', h')
          \<and> llm env (llm_calls w') h' = Inr am \<and> requested_calls am = []
          \<and> c = content am \<and> w'' = w'\<lparr>llm_calls := Suc (llm_calls w')\<rparr>
          \<and> h'' = h' @ [Assistant am]"
  have only: "?R" if "process_user_query env query w = Some (Inr c, w'', h'')"
    using process_loop_returns_only [of env w ?init "(Inr c, w'', h'')" c w'' h''] that
    by (simp add: process_user_query_def)
  have returns: "process_user_query env query w = Some (Inr c, w'', h'')" if "?R"
  proof -
    from that obtain n w' h' am where r:
      "after_rounds n env w ?init = Some (w', h')" "llm env (llm_calls w') h' = Inr am"
      "requested_calls am = []" "c = content am" "w'' = w'\<lparr>llm_calls := Suc (llm_calls w')\<rparr>"
      "h'' = h' @ [Assistant am]"
      by blast
    from process_loop_after_rounds [OF r(1)] process_loop_return [OF r(2,3)] r(4-6)
    show ?thesis by (simp add: process_user_query_def)
  qed
  have never: "process_user_query env query w \<noteq> Some (Inr c, w'', h'')"
    if "\<forall>k h am. llm env k h = Inr am \<longrightarrow> requested_calls am \<noteq> []"
    using only that by blast
  have forever: "process_user_query env query w = None"
    if all: "\<forall>n. after_rounds n env w ?init \<noteq> None"
  proof (rule ccontr)
    assume "process_user_query env query w \<noteq> None"
    then obtain y where "process_loop env w ?init = Some y"
      by (auto simp: process_user_query_def)
    from process_loop_ends_only [OF this] obtain n w' h' where
      "after_rounds n env w ?init = Some (w', h')" "next_round env w' h' = None"
      by blast
    then have "after_rounds (Suc n) env w ?init = None"
      by (rule after_rounds_stuck)
    with all show False by blast
  qed
  from only returns never forever process_loop_next_round [of env w1 h1 w2 h2]
  show ?thesis by blast
qed

theorem process_user_query_unbounded_witness:
  "process_user_query (env_tools [fc_other]) ''q'' w0 = None
   \<and> process_user_query (env_tools [fc_other]) ''q'' w0 \<noteq> Some (Inr (Some ''42''), w0, [])
   \<and> process_loop (env_tools [fc_other]) w0 [] =
       process_loop (env_tools [fc_other]) (w0\<lparr>llm_calls := Suc (llm_calls w0)\<rparr>)
         [Assistant \<lparr>content = None, tool_calls = Some [fc_other]\<rparr>, Tool ''call_4'' '''']"
proof -
  have calls: "\<forall>k h am. llm (env_tools [fc_other]) k h = Inr am \<longrightarrow> requested_calls am \<noteq> []"
    by (auto simp: env_tools_def requested_calls_def)
  have rounds: "\<forall>n. after_rounds n (env_tools [fc_other]) w0 [System first_llm_system_prompt, User ''q''] \<noteq> None"
    by (simp add: after_rounds_fc_other)
  have step: "next_round (env_tools [fc_other]) w0 [] =
      Some (w0\<lparr>llm_calls := Suc (llm_calls w0)\<rparr>,
            [Assistant \<lparr>content = None, tool_calls = Some [fc_other]\<rparr>, Tool ''call_4'' ''''])"
    by (simp add: next_round_fc_other)
  from process_user_query_unbounded [of "env_tools [fc_other]" "''q''" w0 "Some ''42''" w0 "[]"
      w0 "[]" "w0\<lparr>llm_calls := Suc (llm_calls w0)\<rparr>"
      "[Assistant \<lparr>content = None, tool_calls = Some [fc_other]\<rparr>, Tool ''call_4'' '''']"]
    calls rounds step
  show ?thesis by blast
qed

text \<open>
  C9 as stated fails: the model below asks for a tool call on every turn, so it never emits a
  reply without tool calls, yet the run ends after the first model call, because the argument
  blob of the call does not decode and the exception is caught nowhere.
\<close>

theorem process_user_query_aborted_counterexample:
  "process_user_query (env_tools [fc_bad]) ''q'' w0 =
     Some (Inl (JSONDecodeError ''Expecting value: line 1 column 1 (char 0)''),
           w0\<lparr>llm_calls := 1\<rparr>,
           [System first_llm_system_prompt, User ''q'',
            Assistant \<lparr>content = None, tool_calls = Some [fc_bad]\<rparr>])"
  using process_loop_abort [of "env_tools [fc_bad]" w0 "[System first_llm_system_prompt, User ''q'']"
      "\<lparr>content = None, tool_calls = Some [fc_bad]\<rparr>"
      "JSONDecodeError ''Expecting value: line 1 column 1 (char 0)''"
      "w0\<lparr>llm_calls := 1\<rparr>"
      "[System first_llm_system_prompt, User ''q'', Assistant \<lparr>content = None, tool_calls = Some [fc_bad]\<rparr>]"]
  by (simp add: process_user_query_def env_tools_def env_base_def requested_calls_def echo_content_def
        exec_tool_call_def loads_table_def fc_bad_def w0_def)

section \<open>Executing the tool calls of a reply\<close>

lemma exec_tool_call_ok:
  assumes "exec_tool_call env fc w history = (Inr u, w1, history1)"
  shows "\<exists>c. history1 = history @ [Tool (call_id fc) c] \<and> claimed_content env fc w c"
proof (cases "json_loads env (function_arguments fc)")
  case (Inl e)
  with assms show ?thesis by (simp add: exec_tool_call_def)
next
  case (Inr args)
  show ?thesis
  proof (cases "function_name fc = ''search_brave''")
    case False
    with Inr assms show ?thesis
      by (auto simp: exec_tool_call_def claimed_content_def)
  next
    case True
    show ?thesis
    proof (cases "py_in ''query'' args")
      case (Inl e)
      with True Inr assms show ?thesis by (simp add: exec_tool_call_def)
    next
      case has: (Inr b)
      show ?thesis
      proof (cases b)
        case False
        with has True Inr assms show ?thesis
          by (auto simp: exec_tool_call_def claimed_content_def)
      next
        case yes: True
        show ?thesis
        proof (cases "py_getitem args ''query''")
          case (Inl e)
          with yes has True Inr assms show ?thesis by (simp add: exec_tool_call_def)
        next
          case q: (Inr query)
          obtain r w2 where s: "search_brave env query 10 w = (r, w2)"
            by (cases "search_brave env query 10 w")
          show ?thesis
          proof (cases r)
            case (Inl e)
            with s q yes has True Inr assms show ?thesis by (simp add: exec_tool_call_def)
          next
            case found: (Inr search_result)
            with s q yes has True Inr assms show ?thesis
              by (auto simp: exec_tool_call_def claimed_content_def)
          qed
        qed
      qed
    qed
  qed
qed

lemma exec_tool_call_undecodable:
  "json_loads env (function_arguments fc) = Inl e \<Longrightarrow>
     exec_tool_call env fc w history = (Inl e, w, history)"
  by (simp add: exec_tool_call_def)

lemma exec_tool_call_decoded:
  "exec_tool_call env fc w history = (Inr u, w1, history1) \<Longrightarrow>
     \<exists>args. json_loads env (function_arguments fc) = Inr args"
  by (cases "json_loads env (function_arguments fc)") (simp_all add: exec_tool_call_def)

lemma exec_tool_call_no_query:
  assumes "json_loads env (function_arguments fc) = Inr (JObj kvs)"
    and "''query'' \<notin> set (map fst kvs)" and "function_name fc = ''search_brave''"
  shows "exec_tool_call env fc w history =
           (Inr (), w, history @ [Tool (call_id fc) ''No query found in arguments''])"
  using assms by (simp add: exec_tool_call_def)

lemma run_tool_calls_append:
  "run_tool_calls env pre w history = (Inr u, w1, history1) \<Longrightarrow>
     run_tool_calls env (pre @ post) w history = run_tool_calls env post w1 history1"
proof (induction pre arbitrary: w history)
  case Nil
  then show ?case by simp
next
  case (Cons fc pre)
  then show ?case
    by (auto split: prod.splits sum.splits)
qed

lemma run_tool_calls_shape:
  "run_tool_calls env fcs w history = (Inr u, w', history') \<Longrightarrow>
     length history' = length history + length fcs
     \<and> take (length history) history' = history
     \<and> (\<forall>i < length fcs. \<exists>wi hi c.
           run_tool_calls env (take i fcs) w history = (Inr (), wi, hi)
           \<and> hi = take (length history + i) history'
           \<and> history' ! (length history + i) = Tool (call_id (fcs ! i)) c
           \<and> claimed_content env (fcs ! i) wi c)"
proof (induction fcs arbitrary: w history)
  case Nil
  then show ?case by simp
next
  case (Cons fc rest)
  obtain r w1 h1 where ex: "exec_tool_call env fc w history = (r, w1, h1)"
    using prod_cases3 by blast
  with Cons.prems obtain u1 where r: "r = Inr u1"
    by (cases r) simp_all
  with ex Cons.prems have run: "run_tool_calls env rest w1 h1 = (Inr u, w', history')"
    by simp
  from exec_tool_call_ok ex r obtain c0 where
    h1: "h1 = history @ [Tool (call_id fc) c0]" and c0: "claimed_content env fc w c0"
    by blast
  from Cons.IH [OF run] have
    len: "length history' = length h1 + length rest" and
    pre: "take (length h1) history' = h1" and
    each: "\<forall>i < length rest. \<exists>wi hi c.
           run_tool_calls env (take i rest) w1 h1 = (Inr (), wi, hi)
           \<and> hi = take (length h1 + i) history'
           \<and> history' ! (length h1 + i) = Tool (call_id (rest ! i)) c
           \<and> claimed_content env (rest ! i) wi c"
    by blast+
  have a: "length history' = length history + length (fc # rest)"
    using len h1 by simp
  have "take (length history) (take (length h1) history') = take (length history) history'"
    using h1 by (simp add: min_def)
  with pre h1 have b: "take (length history) history' = history"
    by simp
  have "history' ! length history = take (length h1) history' ! length history"
    using h1 by simp
  with pre h1 have first: "history' ! length history = Tool (call_id fc) c0"
    by simp
  have c: "\<forall>i < length (fc # rest). \<exists>wi hi c.
           run_tool_calls env (take i (fc # rest)) w history = (Inr (), wi, hi)
           \<and> hi = take (length history + i) history'
           \<and> history' ! (length history + i) = Tool (call_id ((fc # rest) ! i)) c
           \<and> claimed_content env ((fc # rest) ! i) wi c"
  proof (intro allI impI)
    fix i assume i: "i < length (fc # rest)"
    show "\<exists>wi hi c.
           run_tool_calls env (take i (fc # rest)) w history = (Inr (), wi, hi)
           \<and> hi = take (length history + i) history'
           \<and> history' ! (length history + i) = Tool (call_id ((fc # rest) ! i)) c
           \<and> claimed_content env ((fc # rest) ! i) wi c"
    proof (cases i)
      case 0
      with b first c0 show ?thesis by simp
    next
      case (Suc j)
      with i have "j < length rest" by simp
      with each obtain wi hi c where j:
        "run_tool_calls env (take j rest) w1 h1 = (Inr (), wi, hi)"
        "hi = take (length h1 + j) history'"
        "history' ! (length h1 + j) = Tool (call_id (rest ! j)) c"
        "claimed_content env (rest ! j) wi c"
        by blast
      have "run_tool_calls env (take i (fc # rest)) w history = (Inr (), wi, hi)"
        using Suc ex r j(1) by simp
      moreover have "length h1 + j = length history + i"
        using h1 Suc by simp
      ultimately show ?thesis
        using j(2-4) Suc by auto
    qed
  qed
  from a b c show ?case by blast
qed




text \<open>
  C10. When the loop comes to a tool call whose argument blob does not decode, the earlier
  calls of the reply having been executed, \<open>process_user_query\<close> ends with the exception
  of the decode: the conversation holds the reply and the results of the earlier calls, and no
  message for this call. A tool-result message is appended only for a blob that decodes, and
  a decoded object without \<open>query\<close> gives the diagnostic string.
\<close>

theorem undecodable_arguments_abort:
  assumes "json_loads env (function_arguments fc) = Inl e"
    and "llm env (llm_calls w) history = Inr am"
    and "requested_calls am = pre @ fc # post"
    and "run_tool_calls env pre (echo_content am (w\<lparr>llm_calls := Suc (llm_calls w)\<rparr>))
           (history @ [Assistant am]) = (Inr (), w1, history1)"
  shows "process_loop env w history = Some (Inl e, w1, history1)
     \<and> length history1 = length history + 1 + length pre
     \<and> (exec_tool_call env fc' w' h' = (Inr (), w2, h2)
          \<longrightarrow> (\<exists>args. json_loads env (function_arguments fc') = Inr args))
     \<and> (json_loads env (function_arguments fc') = Inr (JObj kvs)
          \<and> ''query'' \<notin> set (map fst kvs) \<and> function_name fc' = ''search_brave''
          \<longrightarrow> exec_tool_call env fc' w' h' =
                (Inr (), w', h' @ [Tool (call_id fc') ''No query found in arguments'']))"
proof -
  have "run_tool_calls env (pre @ fc # post) (echo_content am (w\<lparr>llm_calls := Suc (llm_calls w)\<rparr>))
           (history @ [Assistant am]) = run_tool_calls env (fc # post) w1 history1"
    using assms(4) by (rule run_tool_calls_append)
  also have "\<dots> = (Inl e, w1, history1)"
    using assms(1) by (simp add: exec_tool_call_undecodable)
  finally have "process_loop env w history = Some (Inl e, w1, history1)"
    using process_loop_abort [of env w history am e w1 history1] assms(2,3) by simp
  moreover have "length history1 = length history + 1 + length pre"
    using run_tool_calls_shape [OF assms(4)] by simp
  ultimately show ?thesis
    using exec_tool_call_decoded [of env fc' w' h' "()" w2 h2]
      exec_tool_call_no_query [of env fc' kvs w' h']
    by blast
qed

theorem undecodable_arguments_abort_witness:
  "process_user_query (env_tools [fc_no_query, fc_bad_search]) ''q'' w0 =
     Some (Inl (JSONDecodeError ''Expecting value: line 1 column 1 (char 0)''),
           w0\<lparr>llm_calls := 1\<rparr>,
           [System first_llm_system_prompt, User ''q'',
            Assistant \<lparr>content = None, tool_calls = Some [fc_no_query, fc_bad_search]\<rparr>,
            Tool ''call_3'' ''No query found in arguments''])"
  using undecodable_arguments_abort [of "env_tools [fc_no_query, fc_bad_search]" fc_bad_search
      "JSONDecodeError ''Expecting value: line 1 column 1 (char 0)''" w0
      "[System first_llm_system_prompt, User ''q'']"
      "\<lparr>content = None, tool_calls = Some [fc_no_query, fc_bad_search]\<rparr>"
      "[fc_no_query]" "[]" "w0\<lparr>llm_calls := 1\<rparr>"
      "[System first_llm_system_prompt, User ''q'',
        Assistant \<lparr>content = None, tool_calls = Some [fc_no_query, fc_bad_search]\<rparr>,
        Tool ''call_3'' ''No query found in arguments'']"]
  by (simp add: process_user_query_def env_tools_def env_base_def requested_calls_def echo_content_def
        exec_tool_call_def loads_table_def fc_no_query_def fc_bad_search_def w0_def)

end
